theory Spec2Isabelle
  imports Complex_Main "HOL-Library.Char_ord"
begin

section \<open>The block-sorting pipeline of \<^verbatim>\<open>src/lib/bwt.ts\<close>\<close>

text \<open>
  The module chains three text transforms, Burrows-Wheeler (BWT), move-to-front (MTF)
  and run-length encoding (RLE), and records each stage as a step. This theory embeds
  every function of the module as an executable HOL function and settles the round-trip,
  shape and failure properties stated about them.

  Conventions of the embedding.
  \<^item> A JavaScript string is a \<open>string\<close> (a list of \<open>char\<close>): the symbols are the code
    points below 256, each one UTF-16 unit, so that \<^verbatim>\<open>length\<close>, indexing and iteration
    by code point agree.
  \<^item> A function that can throw returns \<open>error + 'a\<close>; \<open>Inl TypeError\<close> is the
    \<^verbatim>\<open>TypeError\<close> raised by a method call on \<^verbatim>\<open>undefined\<close>.
  \<^item> An optional field (\<^verbatim>\<open>metadata?: any\<close>, a key of the metadata object) is an
    \<open>option\<close>; \<open>None\<close> is \<^verbatim>\<open>undefined\<close>.
\<close>

subsection \<open>Numbers\<close>

text \<open>
  The ratios are quotients of two lengths, computed in floating point. \<open>Finite q\<close>
  stands for the double nearest to the rational \<open>q\<close>; a zero divisor gives an infinity
  or, for \<^verbatim>\<open>0 / 0\<close>, \<^verbatim>\<open>NaN\<close>. No exception is raised by a division.
\<close>

datatype number = Finite rat | Infinity | MinusInfinity | NaN

definition divide_js :: "int \<Rightarrow> int \<Rightarrow> number" where
  "divide_js a b =
     (if b = 0 then (if a = 0 then NaN else if 0 < a then Infinity else MinusInfinity)
      else Finite (of_int a / of_int b))"

text \<open>The regular expression \<^verbatim>\<open>/\d/\<close> matches the ASCII digits only.\<close>

definition is_digit :: "char \<Rightarrow> bool" where
  "is_digit c \<longleftrightarrow> (48::nat) \<le> of_char c \<and> of_char c \<le> (57::nat)"

definition digit_val :: "char \<Rightarrow> nat" where
  "digit_val c = of_char c - 48"

definition digit_char :: "nat \<Rightarrow> char" where
  "digit_char d = char_of (48 + d)"

text \<open>\<^verbatim>\<open>String(n)\<close> for an integer: its decimal digits, a minus sign first when negative.\<close>

fun show_nat :: "nat \<Rightarrow> string" where
  "show_nat n = (if n < 10 then [digit_char n] else show_nat (n div 10) @ [digit_char (n mod 10)])"

declare show_nat.simps [simp del]

definition show_int :: "int \<Rightarrow> string" where
  "show_int i = (if i < 0 then CHR ''-'' # show_nat (nat (- i)) else show_nat (nat i))"

text \<open>\<^verbatim>\<open>parseInt\<close> on a string of digits.\<close>

definition parseInt :: "string \<Rightarrow> nat" where
  "parseInt s = foldl (\<lambda>n c. 10 * n + digit_val c) 0 s"

text \<open>
  \<^verbatim>\<open>Number(piece)\<close> as the inverse MTF uses it. A piece made of digits only is its
  decimal value, and the empty piece is \<open>0\<close>. Every other piece (a sign, blanks, a
  fraction, an exponent, a radix prefix, text) is read by JavaScript through its numeric
  literal grammar and floating-point rounding; that part is left outside the embedding and
  shows as \<open>None\<close>, which the caller turns into the outcome \<open>OutsideModel\<close>.
\<close>

definition Number :: "string \<Rightarrow> nat option" where
  "Number s = (if list_all is_digit s then Some (parseInt s) else None)"

datatype error = TypeError | OutsideModel

subsection \<open>Arrays and strings\<close>

text \<open>\<^verbatim>\<open>s.split(',')\<close>: the pieces between the commas; always at least one piece.\<close>

fun split_comma :: "string \<Rightarrow> string list" where
  "split_comma [] = [[]]"
| "split_comma (c # cs) =
     (if c = CHR '','' then [] # split_comma cs
      else (case split_comma cs of [] \<Rightarrow> [[c]] | p # ps \<Rightarrow> (c # p) # ps))"

text \<open>\<^verbatim>\<open>pieces.join(',')\<close>.\<close>

fun join_comma :: "string list \<Rightarrow> string" where
  "join_comma [] = []"
| "join_comma [p] = p"
| "join_comma (p # q # ps) = p @ CHR '','' # join_comma (q # ps)"

text \<open>\<^verbatim>\<open>a.indexOf(x)\<close>: the first position of \<open>x\<close>, or \<open>-1\<close>.\<close>

fun indexOf :: "'a list \<Rightarrow> 'a \<Rightarrow> int" where
  "indexOf [] x = -1"
| "indexOf (y # ys) x =
     (if y = x then 0 else (let i = indexOf ys x in if i < 0 then -1 else i + 1))"

text \<open>
  \<^verbatim>\<open>a.splice(index, 1)\<close>: removes the element at \<open>index\<close> when there is one; a
  negative index counts from the end, an index past the end removes nothing.
\<close>

definition splice1 :: "int \<Rightarrow> 'a list \<Rightarrow> 'a list" where
  "splice1 index a =
     (let n = int (length a);
          start = (if index < 0 then max (n + index) 0 else min index n)
      in take (nat start) a @ drop (nat start + 1) a)"

text \<open>
  \<^verbatim>\<open>Array.from(new Set(text))\<close>: the distinct symbols in the order of their first
  occurrence.
\<close>

fun new_Set :: "'a list \<Rightarrow> 'a list" where
  "new_Set [] = []"
| "new_Set (x # xs) = x # filter (\<lambda>y. y \<noteq> x) (new_Set xs)"

text \<open>
  \<^verbatim>\<open>a.sort(cmp)\<close> is a stable sort: \<open>x\<close> stays before \<open>y\<close> unless \<open>cmp x y > 0\<close>.
\<close>

fun insert_by :: "('a \<Rightarrow> 'a \<Rightarrow> int) \<Rightarrow> 'a \<Rightarrow> 'a list \<Rightarrow> 'a list" where
  "insert_by cmp x [] = [x]"
| "insert_by cmp x (y # ys) = (if cmp x y \<le> 0 then x # y # ys else y # insert_by cmp x ys)"

definition sort_by :: "('a \<Rightarrow> 'a \<Rightarrow> int) \<Rightarrow> 'a list \<Rightarrow> 'a list" where
  "sort_by cmp xs = foldr (insert_by cmp) xs []"

text \<open>
  Modelled from the spec: \<^verbatim>\<open>String.prototype.localeCompare\<close> is the collation of the
  JavaScript runtime, which the module does not define. The specification fixes the
  order of the rotations as the "total lexicographic order over code points", in which
  the sentinel \<^verbatim>\<open>$\<close> sorts below the letters and digits; that order is used here.
\<close>

fun localeCompare :: "string \<Rightarrow> string \<Rightarrow> int" where
  "localeCompare [] [] = 0"
| "localeCompare [] (b # bs) = -1"
| "localeCompare (a # as) [] = 1"
| "localeCompare (a # as) (b # bs) =
     (if (of_char a :: nat) < of_char b then -1
      else if (of_char b :: nat) < of_char a then 1
      else localeCompare as bs)"

text \<open>The default comparison of \<^verbatim>\<open>a.sort()\<close> on one-symbol strings: by code unit.\<close>

definition compare_default :: "char \<Rightarrow> char \<Rightarrow> int" where
  "compare_default a b =
     (if (of_char a :: nat) < of_char b then -1 else if (of_char b :: nat) < of_char a then 1 else 0)"

subsection \<open>The data model\<close>

text \<open>
  The metadata objects of the module, as one record of optional keys: the BWT result
  sets \<^verbatim>\<open>originalLength\<close> and \<^verbatim>\<open>rotations\<close>, the BWT step adds \<^verbatim>\<open>primaryIndex\<close>, MTF sets
  \<^verbatim>\<open>alphabet\<close> and \<^verbatim>\<open>averageIndex\<close>, RLE sets \<^verbatim>\<open>originalLength\<close>, \<^verbatim>\<open>encodedLength\<close> and
  \<^verbatim>\<open>compressionRatio\<close>. The symbols of an alphabet are one-symbol strings.
\<close>

record Metadata =
  primaryIndex :: "nat option"
  originalLength :: "nat option"
  rotations :: "nat option"
  alphabet :: "char list option"
  averageIndex :: "number option"
  encodedLength :: "nat option"
  compressionRatio :: "number option"

definition no_keys :: Metadata where
  "no_keys = \<lparr>Metadata.primaryIndex = None, originalLength = None, rotations = None,
     alphabet = None, averageIndex = None, encodedLength = None, compressionRatio = None\<rparr>"

record TransformResult =
  transformed :: string
  primaryIndex :: nat
  metadata :: "Metadata option"

record CompressionStep =
  name :: string
  input :: string
  "output" :: string
  ratio :: "number option"
  metadata :: "Metadata option"

subsection \<open>Burrows-Wheeler transform\<close>

text \<open>The rotation starting at offset \<open>i\<close>, paired with \<open>i\<close>.\<close>

definition rotations_of :: "string \<Rightarrow> (string \<times> nat) list" where
  "rotations_of textWithMarker =
     map (\<lambda>i. (drop i textWithMarker @ take i textWithMarker, i)) [0..<length textWithMarker]"

text \<open>\<^verbatim>\<open>rotations.sort((a, b) => a.rotation.localeCompare(b.rotation))\<close>.\<close>

definition sorted_rotations :: "string \<Rightarrow> (string \<times> nat) list" where
  "sorted_rotations textWithMarker =
     sort_by (\<lambda>a b. localeCompare (fst a) (fst b)) (rotations_of textWithMarker)"

text \<open>
  The loop over the sorted rotations: it appends the last symbol of each rotation and
  keeps the position of the rotation of offset 0.
\<close>

fun last_column :: "(string \<times> nat) list \<Rightarrow> nat \<Rightarrow> string \<Rightarrow> nat \<Rightarrow> string \<times> nat" where
  "last_column [] i transformed' primaryIndex' = (transformed', primaryIndex')"
| "last_column ((rotation, index) # rest) i transformed' primaryIndex' =
     last_column rest (i + 1)
       (transformed' @ (if rotation = [] then ''undefined'' else [last rotation]))
       (if index = 0 then i else primaryIndex')"

definition burrowsWheelerTransform :: "string \<Rightarrow> TransformResult" where
  "burrowsWheelerTransform text =
     (if text = [] then \<lparr>transformed = [], primaryIndex = 0, metadata = None\<rparr>
      else
        let textWithMarker = text @ ''$'';
            rotations' = sorted_rotations textWithMarker;
            (transformed', primaryIndex') = last_column rotations' 0 [] 0
        in \<lparr>transformed = butlast transformed',
            primaryIndex = primaryIndex',
            metadata = Some (no_keys\<lparr>originalLength := Some (length text),
                                      rotations := Some (length rotations')\<rparr>)\<rparr>)"

text \<open>
  The inverse rebuilds the table of rotations: \<open>n\<close> times, it puts the symbols of
  \<open>textWithMarker\<close> in front of the rows and sorts the rows.
\<close>

fun fill_table :: "nat \<Rightarrow> string \<Rightarrow> string list \<Rightarrow> string list" where
  "fill_table 0 textWithMarker table = table"
| "fill_table (Suc cols) textWithMarker table =
     fill_table cols textWithMarker (sort_by localeCompare (map2 (#) textWithMarker table))"

definition inverseBurrowsWheelerTransform :: "string \<Rightarrow> nat \<Rightarrow> error + string" where
  "inverseBurrowsWheelerTransform transformed' primaryIndex' =
     (if transformed' = [] then Inr []
      else
        let textWithMarker = transformed' @ ''$'';
            n = length textWithMarker;
            table = fill_table n textWithMarker (replicate n [])
        in if primaryIndex' < length table then Inr (butlast (table ! primaryIndex'))
           else Inl TypeError)"

subsection \<open>Move-to-front transform\<close>

fun moveToFront_loop :: "string \<Rightarrow> char list \<Rightarrow> int list \<Rightarrow> int list" where
  "moveToFront_loop [] alphabet' indices = indices"
| "moveToFront_loop (char # rest) alphabet' indices =
     (let index = indexOf alphabet' char
      in moveToFront_loop rest (char # splice1 index alphabet') (indices @ [index]))"

definition moveToFrontTransform :: "string \<Rightarrow> TransformResult" where
  "moveToFrontTransform text =
     (if text = [] then \<lparr>transformed = [], primaryIndex = 0, metadata = None\<rparr>
      else
        let alphabet' = sort_by compare_default (new_Set text);
            indices = moveToFront_loop text alphabet' []
        in \<lparr>transformed = join_comma (map show_int indices),
            primaryIndex = 0,
            metadata = Some (no_keys\<lparr>
              alphabet := Some (sort_by compare_default (new_Set text)),
              averageIndex := Some (divide_js (sum_list indices) (int (length indices)))\<rparr>)\<rparr>)"

text \<open>
  The working alphabet of the inverse can hold \<^verbatim>\<open>undefined\<close> (\<open>None\<close>): an index past
  the end reads \<^verbatim>\<open>undefined\<close>, which is appended to the result as the text
  \<^verbatim>\<open>undefined\<close> and moved to the front like a symbol.
\<close>

definition to_text :: "char option \<Rightarrow> string" where
  "to_text v = (case v of None \<Rightarrow> ''undefined'' | Some c \<Rightarrow> [c])"

fun inverseMoveToFront_loop :: "nat list \<Rightarrow> char option list \<Rightarrow> string \<Rightarrow> string" where
  "inverseMoveToFront_loop [] alphabet' result = result"
| "inverseMoveToFront_loop (index # rest) alphabet' result =
     (let char = (if index < length alphabet' then alphabet' ! index else None)
      in inverseMoveToFront_loop rest (char # splice1 (int index) alphabet') (result @ to_text char))"

fun all_numbers :: "nat option list \<Rightarrow> nat list option" where
  "all_numbers [] = Some []"
| "all_numbers (None # rest) = None"
| "all_numbers (Some n # rest) = map_option ((#) n) (all_numbers rest)"

definition inverseMoveToFrontTransform :: "string \<Rightarrow> char list \<Rightarrow> error + string" where
  "inverseMoveToFrontTransform indices originalAlphabet =
     (if indices = [] then Inr []
      else
        (case all_numbers (map Number (split_comma indices)) of
           None \<Rightarrow> Inl OutsideModel
         | Some indexArray \<Rightarrow>
             Inr (inverseMoveToFront_loop indexArray (map Some originalAlphabet) [])))"

subsection \<open>Run-length encoding\<close>

text \<open>One run: the symbol alone, or the count and the symbol when the count exceeds 1.\<close>

definition run :: "nat \<Rightarrow> char \<Rightarrow> string" where
  "run count currentChar = (if 1 < count then show_nat count @ [currentChar] else [currentChar])"

fun runLengthEncode_loop :: "string \<Rightarrow> string \<Rightarrow> nat \<Rightarrow> char \<Rightarrow> string" where
  "runLengthEncode_loop [] encoded count currentChar = encoded @ run count currentChar"
| "runLengthEncode_loop (c # rest) encoded count currentChar =
     (if c = currentChar then runLengthEncode_loop rest encoded (count + 1) currentChar
      else runLengthEncode_loop rest (encoded @ run count currentChar) 1 c)"

definition runLengthEncode :: "string \<Rightarrow> TransformResult" where
  "runLengthEncode text =
     (case text of
        [] \<Rightarrow> \<lparr>transformed = [], primaryIndex = 0, metadata = None\<rparr>
      | currentChar # rest \<Rightarrow>
          let encoded = runLengthEncode_loop rest [] 1 currentChar
          in \<lparr>transformed = encoded,
              primaryIndex = 0,
              metadata = Some (no_keys\<lparr>
                originalLength := Some (length text),
                encodedLength := Some (length encoded),
                compressionRatio := Some (divide_js (int (length text)) (int (length encoded)))\<rparr>)\<rparr>)"

text \<open>
  The decoder's two loops, on the part of \<open>encoded\<close> from position \<open>i\<close> on. The outer
  loop starts a count when the symbol at \<open>i\<close> is a digit and is not the last symbol; the
  inner loop collects digits while there are some, then reads the symbol at \<open>i\<close>. When
  the digits reach the end of the string that symbol is \<^verbatim>\<open>undefined\<close> and
  \<^verbatim>\<open>char.repeat\<close> throws. Counts are exact natural numbers: the limits of the runtime on
  the size of a string and on the precision of a number are not part of the embedding.
\<close>

fun runLengthDecode_loop :: "string \<Rightarrow> string \<Rightarrow> error + string"
  and runLengthDecode_count :: "string \<Rightarrow> string \<Rightarrow> string \<Rightarrow> error + string" where
  "runLengthDecode_loop [] decoded = Inr decoded"
| "runLengthDecode_loop (c # rest) decoded =
     (if rest \<noteq> [] \<and> is_digit c then runLengthDecode_count (c # rest) [] decoded
      else runLengthDecode_loop rest (decoded @ [c]))"
| "runLengthDecode_count [] countStr decoded = Inl TypeError"
| "runLengthDecode_count (c # rest) countStr decoded =
     (if is_digit c then runLengthDecode_count rest (countStr @ [c]) decoded
      else runLengthDecode_loop rest (decoded @ replicate (parseInt countStr) c))"

definition runLengthDecode :: "string \<Rightarrow> error + string" where
  "runLengthDecode encoded = (if encoded = [] then Inr [] else runLengthDecode_loop encoded [])"

subsection \<open>The pipeline\<close>

text \<open>
  \<^verbatim>\<open>{ primaryIndex: p, ...m }\<close>: the keys of \<open>m\<close>, when there is an \<open>m\<close>, and
  \<^verbatim>\<open>primaryIndex\<close>, which a key of the same name in \<open>m\<close> would replace.
\<close>

definition with_primaryIndex :: "nat \<Rightarrow> Metadata option \<Rightarrow> Metadata" where
  "with_primaryIndex p m =
     (case m of
        None \<Rightarrow> no_keys\<lparr>Metadata.primaryIndex := Some p\<rparr>
      | Some k \<Rightarrow> (case Metadata.primaryIndex k of None \<Rightarrow> k\<lparr>Metadata.primaryIndex := Some p\<rparr>
                                                  | Some _ \<Rightarrow> k))"

definition compressText :: "string \<Rightarrow> CompressionStep list" where
  "compressText text =
     (let bwtResult = burrowsWheelerTransform text;
          mtfResult = moveToFrontTransform (transformed bwtResult);
          rleResult = runLengthEncode (transformed mtfResult)
      in [\<lparr>name = ''Original'', input = text, output = text,
            ratio = Some (Finite 1), metadata = None\<rparr>,
          \<lparr>name = ''BWT'', input = text, output = transformed bwtResult,
            ratio = Some (divide_js (int (length text)) (int (length (transformed bwtResult)))),
            metadata = Some (with_primaryIndex (TransformResult.primaryIndex bwtResult)
                               (TransformResult.metadata bwtResult))\<rparr>,
          \<lparr>name = ''MTF'', input = transformed bwtResult, output = transformed mtfResult,
            ratio = Some (divide_js (int (length (transformed bwtResult)))
                                    (int (length (transformed mtfResult)))),
            metadata = TransformResult.metadata mtfResult\<rparr>,
          \<lparr>name = ''RLE'', input = transformed mtfResult, output = transformed rleResult,
            ratio = Some (divide_js (int (length (transformed mtfResult)))
                                    (int (length (transformed rleResult)))),
            metadata = TransformResult.metadata rleResult\<rparr>])"

text \<open>
  \<^verbatim>\<open>m?.alphabet\<close> and \<^verbatim>\<open>m?.primaryIndex\<close>: \<^verbatim>\<open>undefined\<close> when the metadata or the key is
  absent. An array is truthy, also when empty.
\<close>

definition alphabet_of :: "CompressionStep \<Rightarrow> char list option" where
  "alphabet_of step = (case CompressionStep.metadata step of None \<Rightarrow> None | Some m \<Rightarrow> alphabet m)"

definition primaryIndex_of :: "CompressionStep \<Rightarrow> nat option" where
  "primaryIndex_of step =
     (case CompressionStep.metadata step of None \<Rightarrow> None | Some m \<Rightarrow> Metadata.primaryIndex m)"

definition decompressText :: "CompressionStep list \<Rightarrow> error + string" where
  "decompressText steps =
     (if length steps < 4 then Inr []
      else
        (case runLengthDecode (output (steps ! 3)) of
           Inl e \<Rightarrow> Inl e
         | Inr decoded \<Rightarrow>
             (case (case alphabet_of (steps ! 2) of
                      None \<Rightarrow> Inr decoded
                    | Some a \<Rightarrow> inverseMoveToFrontTransform decoded a) of
                Inl e \<Rightarrow> Inl e
              | Inr current \<Rightarrow>
                  (case primaryIndex_of (steps ! 1) of
                     None \<Rightarrow> Inr current
                   | Some p \<Rightarrow> inverseBurrowsWheelerTransform current p))))"

subsection \<open>Notions used to state the properties\<close>

text \<open>
  \<^verbatim>\<open>r.metadata.alphabet\<close>, read without optional chaining: reading a key of an absent
  metadata object throws; an absent key reads as \<^verbatim>\<open>undefined\<close>.
\<close>

definition metadata_alphabet :: "TransformResult \<Rightarrow> error + char list option" where
  "metadata_alphabet r =
     (case TransformResult.metadata r of None \<Rightarrow> Inl TypeError | Some m \<Rightarrow> Inr (alphabet m))"

text \<open>A ratio is well defined when it is present and is a finite number.\<close>

definition well_defined :: "number option \<Rightarrow> bool" where
  "well_defined r = (case r of Some (Finite q) \<Rightarrow> True | _ \<Rightarrow> False)"

text \<open>The string \<open>L\<close> without the symbol at position \<open>p\<close>.\<close>

definition remove_at :: "nat \<Rightarrow> 'a list \<Rightarrow> 'a list" where
  "remove_at p L = take p L @ drop (Suc p) L"

text \<open>A step that carries only an output and a metadata object, for concrete sequences.\<close>

definition plain_step :: "string \<Rightarrow> Metadata option \<Rightarrow> CompressionStep" where
  "plain_step out m = \<lparr>name = [], input = [], output = out, ratio = None, metadata = m\<rparr>"

text \<open>
  The outcome that the three inverse stages give from an RLE output, an alphabet and a
  primary index, either of which may be absent: the RLE inverse, then the MTF inverse
  unless the alphabet is absent, then the BWT inverse unless the primary index is absent;
  the failure of a stage is the outcome.
\<close>

definition invert_stages :: "string \<Rightarrow> char list option \<Rightarrow> nat option \<Rightarrow> error + string" where
  "invert_stages out alphabet' primaryIndex' =
     (case runLengthDecode out of
        Inl e \<Rightarrow> Inl e
      | Inr decoded \<Rightarrow>
          (case (case alphabet' of
                   None \<Rightarrow> Inr decoded
                 | Some a \<Rightarrow> inverseMoveToFrontTransform decoded a) of
             Inl e \<Rightarrow> Inl e
           | Inr current \<Rightarrow>
               (case primaryIndex' of
                  None \<Rightarrow> Inr current
                | Some p \<Rightarrow> inverseBurrowsWheelerTransform current p)))"

section \<open>Auxiliary facts\<close>

subsection \<open>Decimal numerals, splitting and joining\<close>

lemma digit_char_is_digit: "d < 10 \<Longrightarrow> is_digit (digit_char d)"
  by (simp add: is_digit_def digit_char_def)

lemma digit_val_digit_char: "d < 10 \<Longrightarrow> digit_val (digit_char d) = d"
  by (simp add: digit_val_def digit_char_def)

lemma digit_char_not_comma: "d < 10 \<Longrightarrow> digit_char d \<noteq> CHR '',''"
proof
  assume d: "d < 10" and "digit_char d = CHR '',''"
  then have "(of_char (digit_char d) :: nat) = of_char CHR '',''" by simp
  with d show False by (simp add: digit_char_def)
qed

lemma show_nat_small: "n < 10 \<Longrightarrow> show_nat n = [digit_char n]"
  by (subst show_nat.simps) simp

lemma show_nat_big: "\<not> n < 10 \<Longrightarrow> show_nat n = show_nat (n div 10) @ [digit_char (n mod 10)]"
  by (subst show_nat.simps) simp

lemma show_nat_digits: "list_all is_digit (show_nat n)"
proof (induction n rule: show_nat.induct)
  case (1 n)
  show ?case
  proof (cases "n < 10")
    case True
    then show ?thesis by (simp add: show_nat_small digit_char_is_digit)
  next
    case False
    with 1 have "list_all is_digit (show_nat (n div 10))" by simp
    moreover have "is_digit (digit_char (n mod 10))" by (simp add: digit_char_is_digit)
    ultimately show ?thesis using False by (simp add: show_nat_big)
  qed
qed

lemma show_nat_no_comma: "CHR '','' \<notin> set (show_nat n)"
proof (induction n rule: show_nat.induct)
  case (1 n)
  show ?case
  proof (cases "n < 10")
    case True
    then show ?thesis using digit_char_not_comma [of n] by (simp add: show_nat_small)
  next
    case False
    with 1 have "CHR '','' \<notin> set (show_nat (n div 10))" by simp
    moreover have "digit_char (n mod 10) \<noteq> CHR '',''" by (simp add: digit_char_not_comma)
    ultimately show ?thesis using False by (simp add: show_nat_big)
  qed
qed

lemma show_nat_not_Nil: "show_nat n \<noteq> []"
  by (cases "n < 10") (simp_all add: show_nat_small show_nat_big)

lemma parseInt_snoc: "parseInt (s @ [c]) = 10 * parseInt s + digit_val c"
  by (simp add: parseInt_def)

lemma parseInt_show_nat: "parseInt (show_nat n) = n"
proof (induction n rule: show_nat.induct)
  case (1 n)
  show ?case
  proof (cases "n < 10")
    case True
    then show ?thesis by (simp add: show_nat_small parseInt_def digit_val_digit_char)
  next
    case False
    with 1 have "parseInt (show_nat (n div 10)) = n div 10" by simp
    then have "parseInt (show_nat (n div 10) @ [digit_char (n mod 10)]) = n"
      by (simp add: parseInt_snoc digit_val_digit_char)
    with False show ?thesis by (simp add: show_nat_big)
  qed
qed

lemma Number_show_int: "Number (show_int (int k)) = Some k"
  by (simp add: Number_def show_int_def show_nat_digits parseInt_show_nat)

lemma all_numbers_show: "all_numbers (map Number (map show_int (map int ks))) = Some ks"
  by (induction ks) (simp_all add: Number_show_int)

lemma split_comma_piece: "CHR '','' \<notin> set p \<Longrightarrow> split_comma p = [p]"
  by (induction p) auto

lemma split_comma_append:
  "CHR '','' \<notin> set p \<Longrightarrow> split_comma (p @ CHR '','' # s) = p # split_comma s"
  by (induction p) auto

lemma split_join_comma:
  "ps \<noteq> [] \<Longrightarrow> \<forall>p \<in> set ps. CHR '','' \<notin> set p \<Longrightarrow> split_comma (join_comma ps) = ps"
proof (induction ps rule: join_comma.induct)
  case 1
  then show ?case by simp
next
  case (2 p)
  then show ?case by (simp add: split_comma_piece)
next
  case (3 p q ps)
  then show ?case by (simp add: split_comma_append)
qed

lemma join_comma_not_Nil: "ps \<noteq> [] \<Longrightarrow> \<forall>p \<in> set ps. p \<noteq> [] \<Longrightarrow> join_comma ps \<noteq> []"
  by (induction ps rule: join_comma.induct) auto

lemma indexOf_member:
  "x \<in> set a \<Longrightarrow> \<exists>k. indexOf a x = int k \<and> k < length a \<and> a ! k = x"
proof (induction a)
  case Nil
  then show ?case by simp
next
  case (Cons y ys)
  show ?case
  proof (cases "y = x")
    case True
    then have "indexOf (y # ys) x = int 0 \<and> 0 < length (y # ys) \<and> (y # ys) ! 0 = x" by simp
    then show ?thesis by blast
  next
    case False
    with Cons.prems have "x \<in> set ys" by simp
    with Cons.IH obtain k where k: "indexOf ys x = int k" "k < length ys" "ys ! k = x" by blast
    with False have "indexOf (y # ys) x = int (Suc k) \<and> Suc k < length (y # ys) \<and> (y # ys) ! Suc k = x"
      by (simp add: Let_def)
    then show ?thesis by blast
  qed
qed

lemma splice1_nat: "splice1 (int k) a = take k a @ drop (Suc k) a"
proof (cases "k \<le> length a")
  case True
  then show ?thesis by (simp add: splice1_def Let_def min_def)
next
  case False
  then show ?thesis by (simp add: splice1_def Let_def min_def)
qed

lemma set_move_to_front:
  "k < length a \<Longrightarrow> set (a ! k # take k a @ drop (Suc k) a) = set a"
proof -
  assume "k < length a"
  then have "a = take k a @ a ! k # drop (Suc k) a" by (rule id_take_nth_drop)
  then have "set a = set (take k a @ a ! k # drop (Suc k) a)" by simp
  then show ?thesis by auto
qed

lemma moveToFront_loop_step:
  "indexOf a c = int k \<Longrightarrow>
   moveToFront_loop (c # rest) a indices =
   moveToFront_loop rest (c # take k a @ drop (Suc k) a) (indices @ [int k])"
  by (simp add: splice1_nat)

lemma inverseMoveToFront_loop_step:
  "k < length a \<Longrightarrow>
   inverseMoveToFront_loop (k # ks) (map Some a) result =
   inverseMoveToFront_loop ks (map Some (a ! k # take k a @ drop (Suc k) a)) (result @ [a ! k])"
  by (simp add: splice1_nat to_text_def take_map drop_map)

lemma moveToFront_inverse_loop:
  "set str \<subseteq> set a \<Longrightarrow>
   \<exists>ks. moveToFront_loop str a indices = indices @ map int ks \<and> length ks = length str \<and>
        (\<forall>result. inverseMoveToFront_loop ks (map Some a) result = result @ str)"
proof (induction str arbitrary: a indices)
  case Nil
  have "moveToFront_loop [] a indices = indices @ map int [] \<and> length ([]::nat list) = length ([]::string) \<and>
        (\<forall>result. inverseMoveToFront_loop [] (map Some a) result = result @ [])" by simp
  then show ?case by blast
next
  case (Cons c rest)
  then have "c \<in> set a" by simp
  from indexOf_member [OF this]
  obtain k where k: "indexOf a c = int k" "k < length a" "a ! k = c" by blast
  let ?a = "c # take k a @ drop (Suc k) a"
  have seta: "set ?a = set a" using set_move_to_front [OF k(2)] by (simp only: k(3))
  with Cons.prems have "set rest \<subseteq> set ?a" by simp
  from Cons.IH [OF this, of "indices @ [int k]"]
  obtain ks where ks: "moveToFront_loop rest ?a (indices @ [int k]) = (indices @ [int k]) @ map int ks"
    "length ks = length rest"
    "\<forall>result. inverseMoveToFront_loop ks (map Some ?a) result = result @ rest" by blast
  have fwd: "moveToFront_loop (c # rest) a indices = indices @ map int (k # ks)"
    using ks(1) by (simp only: moveToFront_loop_step [OF k(1)]) simp
  have inv: "inverseMoveToFront_loop (k # ks) (map Some a) result = result @ c # rest" for result
    using ks(3) k(3) by (simp only: inverseMoveToFront_loop_step [OF k(2)]) simp
  from fwd inv ks(2) have "moveToFront_loop (c # rest) a indices = indices @ map int (k # ks) \<and>
     length (k # ks) = length (c # rest) \<and>
     (\<forall>result. inverseMoveToFront_loop (k # ks) (map Some a) result = result @ c # rest)" by simp
  then show ?case by blast
qed

lemma set_insert_by: "set (insert_by cmp x xs) = insert x (set xs)"
  by (induction xs) auto

lemma set_sort_by: "set (sort_by cmp xs) = set xs"
  by (induction xs) (simp_all add: sort_by_def set_insert_by)

lemma set_new_Set: "set (new_Set xs) = set xs"
  by (induction xs) auto

section \<open>The properties\<close>

subsection \<open>The step sequence of \<open>compressText\<close>\<close>

text \<open>
  Claim C7. For every text \<open>T\<close>, \<open>compressText T\<close> is a sequence of exactly four steps,
  named Original, BWT, MTF and RLE in this order, and the input of each step after the
  first is the output of the step before it.
\<close>

theorem compressText_steps:
  "length (compressText T) = 4 \<and>
   map name (compressText T) = [''Original'', ''BWT'', ''MTF'', ''RLE''] \<and>
   input (compressText T ! 1) = output (compressText T ! 0) \<and>
   input (compressText T ! 2) = output (compressText T ! 1) \<and>
   input (compressText T ! 3) = output (compressText T ! 2)"
  by (simp add: compressText_def Let_def)

text \<open>
  Claim C8, as amended. \<open>compressText\<close> of the empty text is four steps with empty
  outputs, and \<open>decompressText\<close> takes them back to the empty text; no error arises. The
  ratio of the Original step is 1; the ratios of the BWT, MTF and RLE steps are the
  quotient \<^verbatim>\<open>0 / 0\<close>, which is \<^verbatim>\<open>NaN\<close>.
\<close>

theorem compressText_empty:
  "map output (compressText []) = [[], [], [], []] \<and>
   map ratio (compressText []) = [Some (Finite 1), Some NaN, Some NaN, Some NaN] \<and>
   decompressText (compressText []) = Inr []"
  by code_simp

text \<open>
  The claim as stated asks for well-defined ratios that are no division by zero: the
  ratio of the BWT step of the empty text is the division of 0 by 0.
\<close>

theorem compressText_empty_counterexample:
  "ratio (compressText [] ! 1) = Some (divide_js 0 0) \<and>
   \<not> well_defined (ratio (compressText [] ! 1))"
  by code_simp

subsection \<open>Burrows-Wheeler transform\<close>

text \<open>
  Claim C2. The claim asks for the last column \<open>L\<close> of the sorted rotations with the
  sentinel removed at \<open>primaryIndex\<close>, which for \<^verbatim>\<open>banana\<close> is \<^verbatim>\<open>annbaa\<close> with
  \<open>primaryIndex = 4\<close>. The code removes the last symbol of \<open>L\<close> instead
  (\<^verbatim>\<open>transformed.slice(0, -1)\<close>, under the comment "Remove the marker"): for \<^verbatim>\<open>banana\<close>
  the last column is \<^verbatim>\<open>annb$aa\<close>, the sentinel is at position 4, and the result is
  \<^verbatim>\<open>annb$a\<close>, which still holds the sentinel.
\<close>

theorem burrowsWheelerTransform_banana:
  "CHR ''$'' \<notin> set ''banana'' \<and>
   fst (last_column (sorted_rotations ''banana$'') 0 [] 0) = ''annb$aa'' \<and>
   TransformResult.primaryIndex (burrowsWheelerTransform ''banana'') = 4 \<and>
   remove_at 4 ''annb$aa'' = ''annbaa'' \<and>
   transformed (burrowsWheelerTransform ''banana'') = ''annb$a''"
  by code_simp

text \<open>
  Claim C4. The claim asks that the inverse puts the sentinel back at \<open>primaryIndex\<close>
  and recovers the text. The code appends the sentinel at the end
  (\<^verbatim>\<open>transformed + '$'\<close>), and the forward transform has dropped the last symbol of the
  last column rather than the sentinel: for \<^verbatim>\<open>ab\<close> the forward transform gives \<^verbatim>\<open>b$\<close>
  with \<open>primaryIndex = 1\<close>, and the inverse returns \<^verbatim>\<open>$b\<close>.
\<close>

theorem inverseBurrowsWheelerTransform_ab:
  "CHR ''$'' \<notin> set ''ab'' \<and>
   transformed (burrowsWheelerTransform ''ab'') = ''b$'' \<and>
   TransformResult.primaryIndex (burrowsWheelerTransform ''ab'') = 1 \<and>
   inverseBurrowsWheelerTransform ''b$'' 1 = Inr ''$b''"
  by code_simp

subsection \<open>Move-to-front transform\<close>

text \<open>
  Claim C6, as amended. For every non-empty string \<open>S\<close>, the forward transform records
  an alphabet in its metadata, and the inverse transform applied to the index string and
  that alphabet returns \<open>S\<close>. (For the empty string the forward transform returns no
  metadata.)
\<close>

theorem moveToFront_round_trip:
  assumes "S \<noteq> []"
  shows "\<exists>a. metadata_alphabet (moveToFrontTransform S) = Inr (Some a) \<and>
             inverseMoveToFrontTransform (transformed (moveToFrontTransform S)) a = Inr S"
proof -
  let ?a = "sort_by compare_default (new_Set S)"
  have "set S \<subseteq> set ?a" by (simp add: set_sort_by set_new_Set)
  from moveToFront_inverse_loop [OF this, of "[]"]
  obtain ks where ks: "moveToFront_loop S ?a [] = map int ks" "length ks = length S"
    "\<forall>result. inverseMoveToFront_loop ks (map Some ?a) result = result @ S" by auto
  let ?pieces = "map show_int (map int ks)"
  from assms ks(2) have ne: "?pieces \<noteq> []" by auto
  have nocomma: "\<forall>p \<in> set ?pieces. CHR '','' \<notin> set p"
    by (auto simp: show_int_def show_nat_no_comma)
  have nonempty: "\<forall>p \<in> set ?pieces. p \<noteq> []"
    by (auto simp: show_int_def show_nat_not_Nil)
  have t: "transformed (moveToFrontTransform S) = join_comma ?pieces"
    using assms ks(1) by (simp add: moveToFrontTransform_def Let_def)
  have m: "metadata_alphabet (moveToFrontTransform S) = Inr (Some ?a)"
    using assms by (simp add: moveToFrontTransform_def metadata_alphabet_def Let_def)
  have "inverseMoveToFrontTransform (join_comma ?pieces) ?a = Inr S"
    using join_comma_not_Nil [OF ne nonempty] split_join_comma [OF ne nocomma] ks(3)
    by (simp add: inverseMoveToFrontTransform_def all_numbers_show del: map_map)
  with t m show ?thesis by simp
qed

theorem moveToFront_round_trip_witness:
  "''banana'' \<noteq> [] \<and>
   metadata_alphabet (moveToFrontTransform ''banana'') = Inr (Some ''abn'') \<and>
   transformed (moveToFrontTransform ''banana'') = ''1,1,2,1,1,1'' \<and>
   inverseMoveToFrontTransform ''1,1,2,1,1,1'' ''abn'' = Inr ''banana''"
proof -
  have ne: "''banana'' \<noteq> []" by simp
  have forward: "metadata_alphabet (moveToFrontTransform ''banana'') = Inr (Some ''abn'') \<and>
                 transformed (moveToFrontTransform ''banana'') = ''1,1,2,1,1,1''"
    by code_simp
  from moveToFront_round_trip [OF ne] obtain a where
    a: "metadata_alphabet (moveToFrontTransform ''banana'') = Inr (Some a)"
       "inverseMoveToFrontTransform (transformed (moveToFrontTransform ''banana'')) a = Inr ''banana''"
    by blast
  from a(1) forward have "a = ''abn''" by simp
  with a(2) forward have "inverseMoveToFrontTransform ''1,1,2,1,1,1'' ''abn'' = Inr ''banana''"
    by simp
  with ne forward show ?thesis by blast
qed

text \<open>
  The claim as stated covers the empty string, for which there is no metadata to read
  the alphabet from: \<^verbatim>\<open>moveToFrontTransform("").metadata.alphabet\<close> throws.
\<close>

theorem moveToFront_round_trip_counterexample:
  "metadata_alphabet (moveToFrontTransform []) = Inl TypeError"
  by (simp add: metadata_alphabet_def moveToFrontTransform_def)

subsection \<open>Run-length encoding\<close>

text \<open>
  Claim C5. The claim asks that decoding inverts encoding on the index strings of the
  MTF stage. The decoder reads every digit that is not the last symbol as the start of a
  count, so the digits of the indices themselves are taken for counts: \<^verbatim>\<open>0,0\<close> is the
  MTF output for \<^verbatim>\<open>aa\<close>, it is encoded as \<^verbatim>\<open>0,0\<close>, and that is decoded as \<^verbatim>\<open>0\<close> (zero
  commas, then the last digit).
\<close>

theorem runLengthDecode_index_string:
  "transformed (moveToFrontTransform ''aa'') = ''0,0'' \<and>
   transformed (runLengthEncode ''0,0'') = ''0,0'' \<and>
   runLengthDecode ''0,0'' = Inr ''0''"
  by code_simp

text \<open>
  Claim C9. There is a non-empty encoded string ending in two digits, \<^verbatim>\<open>12\<close>, on which
  \<open>runLengthDecode\<close> takes the digits for a count and then reads the symbol one position
  past the end: the \<open>TypeError\<close> branch, which only that read produces. The branch is
  also reached on the run-length encoding of an MTF output: the MTF output for
  \<^verbatim>\<open>abcdefghijk\<close> is \<^verbatim>\<open>0,1,2,3,4,5,6,7,8,9,10\<close>, which is encoded as itself, and the
  decoder fails on it.
\<close>

theorem runLengthDecode_reads_past_end:
  "(\<exists>encoded. encoded \<noteq> [] \<and> 2 \<le> length (takeWhile is_digit (rev encoded)) \<and>
       runLengthDecode encoded = Inl TypeError) \<and>
   (\<exists>S. transformed (moveToFrontTransform S) = ''0,1,2,3,4,5,6,7,8,9,10'' \<and>
       runLengthDecode (transformed (runLengthEncode (transformed (moveToFrontTransform S)))) =
       Inl TypeError)"
proof -
  have "''12'' \<noteq> [] \<and> 2 \<le> length (takeWhile is_digit (rev ''12'')) \<and>
        runLengthDecode ''12'' = Inl TypeError"
    by code_simp
  moreover have "transformed (moveToFrontTransform ''abcdefghijk'') = ''0,1,2,3,4,5,6,7,8,9,10'' \<and>
        runLengthDecode (transformed (runLengthEncode (transformed (moveToFrontTransform ''abcdefghijk'')))) =
        Inl TypeError"
    by code_simp
  ultimately show ?thesis by blast
qed

subsection \<open>The pipeline\<close>

text \<open>
  Claim C1. The claim asks that \<open>decompressText\<close> returns the text that \<open>compressText\<close>
  was given. It does not in general: for \<^verbatim>\<open>ab\<close> the result is \<^verbatim>\<open>$b\<close>, and for \<^verbatim>\<open>aa\<close>
  the inverse BWT reads a row that the table does not have and throws. Neither text
  holds the sentinel.
\<close>

theorem decompressText_compressText_ab:
  "CHR ''$'' \<notin> set ''ab'' \<and> CHR ''$'' \<notin> set ''aa'' \<and>
   decompressText (compressText ''ab'') = Inr ''$b'' \<and>
   decompressText (compressText ''aa'') = Inl TypeError"
  by code_simp

text \<open>
  Claim C3, as amended. \<open>decompressText\<close> reports no failure of its own for a malformed
  sequence: a sequence of fewer than four steps gives the empty string; in a sequence of
  four steps or more, an absent alphabet in the metadata of step 2 makes it skip the
  inverse MTF, and an absent primary index in the metadata of step 1 makes it skip the
  inverse BWT, the string inverted so far being handed on and returned. Whenever it does
  fail, the sequence has four steps or more and the failure is that of an inner stage on
  the string that the stages before it have produced: of the RLE inverse on the output of
  step 3, of the MTF inverse on the decoded string, or of the BWT inverse on the string
  that the MTF stage hands on. A failure of the RLE inverse is always passed on, and with
  both the alphabet and the primary index present the outcome is that of the BWT inverse
  on the result of the MTF inverse.
\<close>

theorem decompressText_malformed:
  "(length steps < 4 \<longrightarrow> decompressText steps = Inr []) \<and>
   (4 \<le> length steps \<and> alphabet_of (steps ! 2) = None \<and> primaryIndex_of (steps ! 1) = None
      \<longrightarrow> decompressText steps = runLengthDecode (output (steps ! 3))) \<and>
   (4 \<le> length steps \<and> alphabet_of (steps ! 2) = None \<and> primaryIndex_of (steps ! 1) = Some p \<and>
    runLengthDecode (output (steps ! 3)) = Inr decoded
      \<longrightarrow> decompressText steps = inverseBurrowsWheelerTransform decoded p) \<and>
   (4 \<le> length steps \<and> alphabet_of (steps ! 2) = Some a \<and> primaryIndex_of (steps ! 1) = None \<and>
    runLengthDecode (output (steps ! 3)) = Inr decoded
      \<longrightarrow> decompressText steps = inverseMoveToFrontTransform decoded a) \<and>
   (4 \<le> length steps \<and> alphabet_of (steps ! 2) = Some a \<and> primaryIndex_of (steps ! 1) = Some p \<and>
    runLengthDecode (output (steps ! 3)) = Inr decoded
      \<longrightarrow> decompressText steps =
           (case inverseMoveToFrontTransform decoded a of
              Inl e' \<Rightarrow> Inl e'
            | Inr current \<Rightarrow> inverseBurrowsWheelerTransform current p)) \<and>
   (4 \<le> length steps \<and> runLengthDecode (output (steps ! 3)) = Inl e
      \<longrightarrow> decompressText steps = Inl e) \<and>
   (decompressText steps = Inl e \<longrightarrow>
      4 \<le> length steps \<and>
      (runLengthDecode (output (steps ! 3)) = Inl e \<or>
       (\<exists>decoded' a'. runLengthDecode (output (steps ! 3)) = Inr decoded' \<and>
                     alphabet_of (steps ! 2) = Some a' \<and>
                     inverseMoveToFrontTransform decoded' a' = Inl e) \<or>
       (\<exists>decoded' current p'.
           runLengthDecode (output (steps ! 3)) = Inr decoded' \<and>
           (case alphabet_of (steps ! 2) of
              None \<Rightarrow> Inr decoded'
            | Some a' \<Rightarrow> inverseMoveToFrontTransform decoded' a') = Inr current \<and>
           primaryIndex_of (steps ! 1) = Some p' \<and>
           inverseBurrowsWheelerTransform current p' = Inl e)))"
proof -
  have early: "length steps < 4 \<longrightarrow> decompressText steps = Inr []"
    by (simp add: decompressText_def)
  have neither: "4 \<le> length steps \<and> alphabet_of (steps ! 2) = None \<and>
      primaryIndex_of (steps ! 1) = None
      \<longrightarrow> decompressText steps = runLengthDecode (output (steps ! 3))"
    by (auto simp: decompressText_def split: sum.splits)
  have bwt_only: "4 \<le> length steps \<and> alphabet_of (steps ! 2) = None \<and>
      primaryIndex_of (steps ! 1) = Some p \<and> runLengthDecode (output (steps ! 3)) = Inr decoded
      \<longrightarrow> decompressText steps = inverseBurrowsWheelerTransform decoded p"
    by (auto simp: decompressText_def)
  have mtf_only: "4 \<le> length steps \<and> alphabet_of (steps ! 2) = Some a \<and>
      primaryIndex_of (steps ! 1) = None \<and> runLengthDecode (output (steps ! 3)) = Inr decoded
      \<longrightarrow> decompressText steps = inverseMoveToFrontTransform decoded a"
    by (auto simp: decompressText_def split: sum.splits)
  have both: "4 \<le> length steps \<and> alphabet_of (steps ! 2) = Some a \<and>
      primaryIndex_of (steps ! 1) = Some p \<and> runLengthDecode (output (steps ! 3)) = Inr decoded
      \<longrightarrow> decompressText steps =
           (case inverseMoveToFrontTransform decoded a of
              Inl e' \<Rightarrow> Inl e'
            | Inr current \<Rightarrow> inverseBurrowsWheelerTransform current p)"
    by (auto simp: decompressText_def split: sum.splits)
  have passed_on: "4 \<le> length steps \<and> runLengthDecode (output (steps ! 3)) = Inl e
      \<longrightarrow> decompressText steps = Inl e"
    by (auto simp: decompressText_def)
  have inner: "decompressText steps = Inl e \<longrightarrow>
      4 \<le> length steps \<and>
      (runLengthDecode (output (steps ! 3)) = Inl e \<or>
       (\<exists>decoded' a'. runLengthDecode (output (steps ! 3)) = Inr decoded' \<and>
                     alphabet_of (steps ! 2) = Some a' \<and>
                     inverseMoveToFrontTransform decoded' a' = Inl e) \<or>
       (\<exists>decoded' current p'.
           runLengthDecode (output (steps ! 3)) = Inr decoded' \<and>
           (case alphabet_of (steps ! 2) of
              None \<Rightarrow> Inr decoded'
            | Some a' \<Rightarrow> inverseMoveToFrontTransform decoded' a') = Inr current \<and>
           primaryIndex_of (steps ! 1) = Some p' \<and>
           inverseBurrowsWheelerTransform current p' = Inl e))"
    by (auto simp: decompressText_def split: if_splits sum.splits option.splits)
  from early neither bwt_only mtf_only both passed_on inner show ?thesis by blast
qed

theorem decompressText_malformed_witness:
  "length (replicate 3 (plain_step ''x'' None)) < 4 \<and>
   decompressText (replicate 3 (plain_step ''x'' None)) = Inr [] \<and>
   4 \<le> length (replicate 4 (plain_step ''x'' None)) \<and>
   decompressText (replicate 4 (plain_step ''x'' None)) = Inr ''x'' \<and>
   decompressText [plain_step ''x'' None,
                   plain_step ''x'' (Some (no_keys\<lparr>Metadata.primaryIndex := Some 0\<rparr>)),
                   plain_step ''x'' None, plain_step ''x'' None] = Inr ''$'' \<and>
   decompressText [plain_step ''0'' None, plain_step ''0'' None,
                   plain_step ''0'' (Some (no_keys\<lparr>alphabet := Some ''x''\<rparr>)),
                   plain_step ''0'' None] = Inr ''x'' \<and>
   decompressText [plain_step ''0'' None,
                   plain_step ''0'' (Some (no_keys\<lparr>Metadata.primaryIndex := Some 1\<rparr>)),
                   plain_step ''0'' (Some (no_keys\<lparr>alphabet := Some ''x''\<rparr>)),
                   plain_step ''0'' None] = Inr ''x'' \<and>
   decompressText (replicate 4 (plain_step ''12'' None)) = Inl TypeError \<and>
   runLengthDecode (output (replicate 4 (plain_step ''12'' None) ! 3)) = Inl TypeError"
proof -
  let ?short = "replicate 3 (plain_step ''x'' None)"
  let ?bare = "replicate 4 (plain_step ''x'' None)"
  let ?bwt = "[plain_step ''x'' None,
               plain_step ''x'' (Some (no_keys\<lparr>Metadata.primaryIndex := Some 0\<rparr>)),
               plain_step ''x'' None, plain_step ''x'' None]"
  let ?mtf = "[plain_step ''0'' None, plain_step ''0'' None,
               plain_step ''0'' (Some (no_keys\<lparr>alphabet := Some ''x''\<rparr>)),
               plain_step ''0'' None]"
  let ?full = "[plain_step ''0'' None,
                plain_step ''0'' (Some (no_keys\<lparr>Metadata.primaryIndex := Some 1\<rparr>)),
                plain_step ''0'' (Some (no_keys\<lparr>alphabet := Some ''x''\<rparr>)),
                plain_step ''0'' None]"
  let ?bad = "replicate 4 (plain_step ''12'' None)"
  have len: "length ?short < 4" by simp
  have bare: "4 \<le> length ?bare \<and> alphabet_of (?bare ! 2) = None \<and> primaryIndex_of (?bare ! 1) = None"
    by code_simp
  have bwt: "4 \<le> length ?bwt \<and> alphabet_of (?bwt ! 2) = None \<and> primaryIndex_of (?bwt ! 1) = Some 0 \<and>
             runLengthDecode (output (?bwt ! 3)) = Inr ''x''"
    by code_simp
  have mtf: "4 \<le> length ?mtf \<and> alphabet_of (?mtf ! 2) = Some ''x'' \<and> primaryIndex_of (?mtf ! 1) = None \<and>
             runLengthDecode (output (?mtf ! 3)) = Inr ''0''"
    by code_simp
  have full: "4 \<le> length ?full \<and> alphabet_of (?full ! 2) = Some ''x'' \<and>
              primaryIndex_of (?full ! 1) = Some 1 \<and>
              runLengthDecode (output (?full ! 3)) = Inr ''0''"
    by code_simp
  have bad: "4 \<le> length ?bad \<and> runLengthDecode (output (?bad ! 3)) = Inl TypeError"
    by code_simp
  have stages: "runLengthDecode (output (?bare ! 3)) = Inr ''x'' \<and>
                inverseBurrowsWheelerTransform ''x'' 0 = Inr ''$'' \<and>
                inverseMoveToFrontTransform ''0'' ''x'' = Inr ''x'' \<and>
                inverseBurrowsWheelerTransform ''x'' 1 = Inr ''x''"
    by code_simp
  have 1: "decompressText ?short = Inr []"
    using decompressText_malformed [of ?short] len by blast
  have 2: "decompressText ?bare = runLengthDecode (output (?bare ! 3))"
    using decompressText_malformed [of ?bare] bare by blast
  have 3: "decompressText ?bwt = inverseBurrowsWheelerTransform ''x'' 0"
    using decompressText_malformed [of ?bwt 0 "''x''"] bwt by blast
  have 4: "decompressText ?mtf = inverseMoveToFrontTransform ''0'' ''x''"
    using decompressText_malformed [of ?mtf _ "''0''" "''x''"] mtf by blast
  have "decompressText ?full =
          (case inverseMoveToFrontTransform ''0'' ''x'' of
             Inl e' \<Rightarrow> Inl e'
           | Inr current \<Rightarrow> inverseBurrowsWheelerTransform current 1)"
    using decompressText_malformed [of ?full 1 "''0''" "''x''"] full by blast
  with stages have 5: "decompressText ?full = Inr ''x''" by simp
  have 6: "decompressText ?bad = Inl TypeError"
    using decompressText_malformed [of ?bad 0 "[]" "[]" TypeError] bad by blast
  have "decompressText ?bad = Inl TypeError \<longrightarrow> 4 \<le> length ?bad"
    using decompressText_malformed [of ?bad 0 "[]" "[]" TypeError] by blast
  with 6 have 7: "4 \<le> length ?bad" by blast
  from len bare 1 2 3 4 5 6 7 bad stages show ?thesis by simp
qed

text \<open>
  The claim as stated asks for a failure instead: a sequence of three steps, and a
  sequence of four steps with no metadata at all, both give a string.
\<close>

theorem decompressText_malformed_counterexample:
  "decompressText (replicate 3 (plain_step ''x'' None)) = Inr [] \<and>
   decompressText (replicate 4 (plain_step ''x'' None)) = Inr ''x''"
  by code_simp

text \<open>
  Claim C10, as amended. A sequence of more than four steps is not turned down for its
  length: the steps past index 3 are ignored, and the outcome is exactly the outcome on
  the first four steps, which is the outcome of the three inverse stages on the output of
  step 3 with the alphabet of step 2 and the primary index of step 1 (the returned
  string, or the failure of a stage). Two sequences of four steps or more that agree on
  these three have the same outcome. Only a sequence of fewer than four steps takes the
  early return, whose value is the empty string: every sequence of four steps or more
  gets the outcome of the stages.
\<close>

theorem decompressText_longer:
  "(4 < length steps \<longrightarrow> decompressText steps = decompressText (take 4 steps)) \<and>
   (length steps < 4 \<longrightarrow> decompressText steps = Inr []) \<and>
   (4 \<le> length steps \<longrightarrow>
      decompressText steps =
      invert_stages (output (steps ! 3)) (alphabet_of (steps ! 2)) (primaryIndex_of (steps ! 1))) \<and>
   (4 \<le> length steps \<and> 4 \<le> length steps' \<and> output (steps ! 3) = output (steps' ! 3) \<and>
    alphabet_of (steps ! 2) = alphabet_of (steps' ! 2) \<and>
    primaryIndex_of (steps ! 1) = primaryIndex_of (steps' ! 1)
      \<longrightarrow> decompressText steps = decompressText steps')"
proof -
  have stages: "decompressText s =
      invert_stages (output (s ! 3)) (alphabet_of (s ! 2)) (primaryIndex_of (s ! 1))"
    if "4 \<le> length s" for s
    using that
    by (auto simp: decompressText_def invert_stages_def split: sum.splits option.splits)
  have early: "length steps < 4 \<longrightarrow> decompressText steps = Inr []"
    by (simp add: decompressText_def)
  have first4: "4 < length steps \<longrightarrow> decompressText steps = decompressText (take 4 steps)"
  proof
    assume more: "4 < length steps"
    then have "4 \<le> length steps" and "4 \<le> length (take 4 steps)" by simp_all
    from stages [OF this(1)] stages [OF this(2)] show
      "decompressText steps = decompressText (take 4 steps)" by simp
  qed
  have frame: "4 \<le> length steps \<and> 4 \<le> length steps' \<and> output (steps ! 3) = output (steps' ! 3) \<and>
    alphabet_of (steps ! 2) = alphabet_of (steps' ! 2) \<and>
    primaryIndex_of (steps ! 1) = primaryIndex_of (steps' ! 1)
      \<longrightarrow> decompressText steps = decompressText steps'"
  proof
    assume h: "4 \<le> length steps \<and> 4 \<le> length steps' \<and> output (steps ! 3) = output (steps' ! 3) \<and>
      alphabet_of (steps ! 2) = alphabet_of (steps' ! 2) \<and>
      primaryIndex_of (steps ! 1) = primaryIndex_of (steps' ! 1)"
    then have "4 \<le> length steps" and "4 \<le> length steps'" by simp_all
    from stages [OF this(1)] stages [OF this(2)] h show
      "decompressText steps = decompressText steps'" by simp
  qed
  from first4 early stages [of steps] frame show ?thesis by blast
qed

theorem decompressText_longer_witness:
  "4 < length (compressText ''a'' @ [plain_step ''12'' None]) \<and>
   decompressText (compressText ''a'' @ [plain_step ''12'' None]) = decompressText (compressText ''a'') \<and>
   decompressText (compressText ''a'') = Inr ''a'' \<and>
   decompressText (compressText ''a'' @ [plain_step ''12'' None]) =
     invert_stages ''0'' (Some ''a'') (Some 1) \<and>
   invert_stages ''0'' (Some ''a'') (Some 1) = Inr ''a'' \<and>
   decompressText (replicate 5 (compressText ''a'' ! 3)) = invert_stages ''0'' None None \<and>
   invert_stages ''0'' None None = Inr ''0'' \<and>
   decompressText (replicate 4 (compressText ''a'' ! 3)) =
     decompressText (replicate 5 (compressText ''a'' ! 3)) \<and>
   length (take 3 (compressText ''a'')) < 4 \<and>
   decompressText (take 3 (compressText ''a'')) = Inr []"
proof -
  let ?long = "compressText ''a'' @ [plain_step ''12'' None]"
  let ?short = "take 3 (compressText ''a'')"
  let ?five = "replicate 5 (compressText ''a'' ! 3)"
  let ?four = "replicate 4 (compressText ''a'' ! 3)"
  have more: "4 < length ?long" by (simp add: compressText_def Let_def)
  have less: "length ?short < 4" by simp
  have first4: "take 4 ?long = compressText ''a''" by (simp add: compressText_def Let_def)
  have a: "decompressText (compressText ''a'') = Inr ''a''" by code_simp
  have parts: "output (?long ! 3) = ''0'' \<and> alphabet_of (?long ! 2) = Some ''a'' \<and>
               primaryIndex_of (?long ! 1) = Some 1"
    by code_simp
  have parts5: "4 \<le> length ?five \<and> output (?five ! 3) = ''0'' \<and> alphabet_of (?five ! 2) = None \<and>
                primaryIndex_of (?five ! 1) = None"
    by code_simp
  have outcomes: "invert_stages ''0'' (Some ''a'') (Some 1) = Inr ''a'' \<and>
                  invert_stages ''0'' None None = Inr ''0''"
    by code_simp
  have 1: "decompressText ?long = decompressText (take 4 ?long)"
    using decompressText_longer [of ?long] more by blast
  have 2: "decompressText ?short = Inr []"
    using decompressText_longer [of ?short] less by blast
  from 1 have 3: "decompressText ?long = decompressText (compressText ''a'')"
    by (simp only: first4)
  from more have "4 \<le> length ?long" by simp
  then have "decompressText ?long =
      invert_stages (output (?long ! 3)) (alphabet_of (?long ! 2)) (primaryIndex_of (?long ! 1))"
    using decompressText_longer [of ?long] by blast
  with parts have 4: "decompressText ?long = invert_stages ''0'' (Some ''a'') (Some 1)"
    by simp
  have "decompressText ?five =
      invert_stages (output (?five ! 3)) (alphabet_of (?five ! 2)) (primaryIndex_of (?five ! 1))"
    using decompressText_longer [of ?five] parts5 by blast
  with parts5 have 5: "decompressText ?five = invert_stages ''0'' None None" by simp
  have agree: "4 \<le> length ?four \<and> 4 \<le> length ?five \<and>
               output (?four ! 3) = output (?five ! 3) \<and>
               alphabet_of (?four ! 2) = alphabet_of (?five ! 2) \<and>
               primaryIndex_of (?four ! 1) = primaryIndex_of (?five ! 1)"
    by code_simp
  have 6: "decompressText ?four = decompressText ?five"
    using decompressText_longer [of ?four ?five] agree by blast
  from more less 2 3 4 5 6 a outcomes show ?thesis by blast
qed

text \<open>
  The claim as stated also says that no error is reported for such a sequence. A
  failure of an inner stage is not held back: five steps whose step 3 has the output
  \<^verbatim>\<open>12\<close> make the decoder read past the end of that string.
\<close>

theorem decompressText_longer_counterexample:
  "length (replicate 5 (plain_step ''12'' None)) = 5 \<and>
   decompressText (replicate 5 (plain_step ''12'' None)) = Inl TypeError"
  by code_simp

end
